theory Spec2Isabelle
  imports Main
begin

section \<open>The browser Discord client: data model\<close>

text \<open>
  The source is the single class \<open>BrowserDiscordManager\<close> of
  \<open>packages/client-browser-discord/src/index.ts\<close>. Its fields become one record, its
  methods functions from the record to the record. What the class receives from outside (the
  answer of an HTTP request, the outcome of the memory store, the clock) is an argument of
  the method that consumes it; what it sends outside (HTTP requests, log lines, calls of the
  registered handlers) is appended to a trace kept in the record.

  Room-state objects are JavaScript objects shared by reference between the \<open>roomStates\<close>
  map and the local variables of methods suspended at an \<open>await\<close>, so they live in an
  explicit store \<open>objects\<close> and the map holds addresses.
\<close>

type_synonym UUID = string
type_synonym handle = nat
type_synonym addr = nat

text \<open>
  \<open>NotFound\<close> is the \<open>Error('Agent not found or no active channel')\<close> that
  \<open>sendMessage\<close> creates itself; \<open>Thrown\<close> is any value thrown by a collaborator (the
  transport, the memory store, a handler).
\<close>

datatype error = NotFound | Thrown string

text \<open>
  Of the runtime the class reads \<open>agentId\<close>, the two places a token may come from, and
  \<open>messageManager.createMemory\<close> (whose outcome is an argument of \<open>sendMessage\<close>).
\<close>

record IAgentRuntime =
  agentId :: UUID
  discord_token :: "string option"
  runtime_token :: "string option"

text \<open>
  \<open>voiceConnection\<close> is never read or written by the class and is left out. A timer
  handle is what \<open>setInterval\<close> returns: a positive number in a browser, an object under
  Node, a truthy value in both, so that \<open>if (state?.pollingInterval)\<close> asks whether the
  field is set.
\<close>

record DiscordRoomState =
  channelId :: string
  lastMessageId :: "string option"
  pollingInterval :: "handle option"

text \<open>Of a platform message the class reads \<open>id\<close> and \<open>author.bot\<close>.\<close>

record APIMessage =
  msg_id :: string
  author_bot :: bool
  msg_content :: string

record Content =
  text_c :: string
  inReplyTo :: "UUID option"

record MemoryContent =
  text_m :: string
  source_m :: string
  inReplyTo_m :: "UUID option"

record Memory =
  id_m :: UUID
  agentId_m :: UUID
  userId_m :: UUID
  roomId_m :: UUID
  content_m :: MemoryContent
  createdAt_m :: nat

text \<open>
  A handler is a function object: \<open>hid\<close> is its identity (what the \<open>Set\<close> compares),
  \<open>run\<close> its behaviour on a state \<open>'w\<close> of its own, returning the error it throws, if
  any. A handler that calls back into the manager is outside this model.
\<close>

datatype 'w MessageHandler =
  MessageHandler (hid: nat) (run: "APIMessage \<Rightarrow> 'w \<Rightarrow> error option \<times> 'w")

text \<open>
  The HTTP requests the class issues: the poll's \<open>fetch\<close> of
  \<open>/api/discord/messages/\<close> followed by the channel id, with the value of its
  \<open>Authorization\<close> header; the seed \<open>rest.get\<close> on the channel's messages with
  \<open>limit\<close>; and the \<open>rest.post\<close> with the text and the optional message reference.
  The headers that the REST client adds to its own requests are not modelled.
\<close>

datatype request =
    Fetch string string
  | RestGet string nat
  | RestPost string string "UUID option"

record 'w BrowserDiscordManager =
  rest_token :: string
  agents :: "string \<rightharpoonup> IAgentRuntime"
  roomStates :: "string \<rightharpoonup> addr"
  messageHandlers :: "'w MessageHandler list"
  currentDMChannel :: "string option"
  objects :: "addr \<Rightarrow> DiscordRoomState"
  nextAddr :: addr
  timers :: "handle \<rightharpoonup> string"
  nextHandle :: handle
  logged :: "(string \<times> error option) list"
  net :: "request list"
  calls :: "(nat \<times> string) list"
  world :: 'w

text \<open>
  \<open>rest_token\<close> is the token the constructor gives to the REST client (\<open>setToken\<close>),
  which keeps it to itself.
  \<open>timers\<close> holds the active interval timers with the room key each one polls (every timer
  of the class runs \<open>() => this.pollMessages(key)\<close>); \<open>calls\<close> lists the handler
  invocations made so far as (handler, message id).
\<close>

section \<open>Helpers of the platform\<close>

text \<open>JavaScript truthiness of a \<open>string | null | undefined\<close>.\<close>

definition truthy :: "string option \<Rightarrow> bool" where
  "truthy s = (case s of None \<Rightarrow> False | Some v \<Rightarrow> v \<noteq> [])"

text \<open>\<open>a || b\<close> on such values.\<close>

definition or_else :: "string option \<Rightarrow> string option \<Rightarrow> string option" where
  "or_else a b = (if truthy a then a else b)"

text \<open>
  \<open>this.rest.token\<close>, read by \<open>pollMessages\<close> under \<open>@ts-ignore\<close>: the REST client
  holds its token in a private field and has no property of that name, so the read gives
  \<open>undefined\<close> whatever the token is. A template literal prints \<open>undefined\<close> as that
  word.
\<close>

definition rest_token_property :: "'w BrowserDiscordManager \<Rightarrow> string option" where
  "rest_token_property st = None"

definition template_string :: "string option \<Rightarrow> string" where
  "template_string v = (case v of None \<Rightarrow> ''undefined'' | Some s \<Rightarrow> s)"

text \<open>
  \<open>setInterval(() => this.pollMessages(key), this.POLLING_INTERVAL)\<close> gives out a handle
  that was never given out before; \<open>clearInterval\<close> stops the timer of a handle and does
  nothing for a handle that has no timer. The period is not modelled: when a timer fires is
  up to the run (see \<open>Tick\<close> below).
\<close>

definition setInterval :: "string \<Rightarrow> 'w BrowserDiscordManager \<Rightarrow> handle \<times> 'w BrowserDiscordManager" where
  "setInterval key st =
     (nextHandle st,
      st\<lparr>timers := (timers st)(nextHandle st \<mapsto> key), nextHandle := Suc (nextHandle st)\<rparr>)"

definition clearInterval :: "handle \<Rightarrow> 'w BrowserDiscordManager \<Rightarrow> 'w BrowserDiscordManager" where
  "clearInterval h st = st\<lparr>timers := (timers st)(h := None)\<rparr>"

definition log_line :: "string \<Rightarrow> error option \<Rightarrow> 'w BrowserDiscordManager \<Rightarrow> 'w BrowserDiscordManager" where
  "log_line s e st = st\<lparr>logged := logged st @ [(s, e)]\<rparr>"

definition send :: "request \<Rightarrow> 'w BrowserDiscordManager \<Rightarrow> 'w BrowserDiscordManager" where
  "send r st = st\<lparr>net := net st @ [r]\<rparr>"

text \<open>\<open>new\<close> of an object literal, and the assignment of one field of an object.\<close>

definition new_object :: "DiscordRoomState \<Rightarrow> 'w BrowserDiscordManager \<Rightarrow> addr \<times> 'w BrowserDiscordManager" where
  "new_object v st =
     (nextAddr st, st\<lparr>objects := (objects st)(nextAddr st := v), nextAddr := Suc (nextAddr st)\<rparr>)"

definition set_lastMessageId :: "addr \<Rightarrow> string \<Rightarrow> 'w BrowserDiscordManager \<Rightarrow> 'w BrowserDiscordManager" where
  "set_lastMessageId a v st =
     st\<lparr>objects := (objects st)(a := (objects st a)\<lparr>lastMessageId := Some v\<rparr>)\<rparr>"

definition set_pollingInterval :: "addr \<Rightarrow> handle \<Rightarrow> 'w BrowserDiscordManager \<Rightarrow> 'w BrowserDiscordManager" where
  "set_pollingInterval a h st =
     st\<lparr>objects := (objects st)(a := (objects st a)\<lparr>pollingInterval := Some h\<rparr>)\<rparr>"

text \<open>\<open>this.roomStates.get(key)\<close>, dereferenced.\<close>

definition room :: "'w BrowserDiscordManager \<Rightarrow> string \<Rightarrow> DiscordRoomState option" where
  "room st key = map_option (objects st) (roomStates st key)"

text \<open>The active timers that poll a given key, among the handles given out so far.\<close>

definition timers_of :: "'w BrowserDiscordManager \<Rightarrow> string \<Rightarrow> handle list" where
  "timers_of st key = filter (\<lambda>h. timers st h = Some key) [0 ..< nextHandle st]"

section \<open>The methods\<close>

subsection \<open>Construction and the direct-message bootstrap\<close>

text \<open>
  \<open>registerAgent\<close> and \<open>initializeDMChannel\<close> are \<open>async\<close> without an \<open>await\<close>:
  they run to their end inside the constructor. The token is
  \<open>secrets.discord_token || runtime.token || ''\<close>. In the new manager no address of
  \<open>objects\<close> is in use, and the handles start at 1.
\<close>

definition startPollingDMs :: "'w BrowserDiscordManager \<Rightarrow> 'w BrowserDiscordManager" where
  "startPollingDMs st =
     (case currentDMChannel st of
        None \<Rightarrow> st
      | Some dm \<Rightarrow>
          if dm = [] then st
          else
            (case new_object \<lparr>channelId = dm, lastMessageId = None, pollingInterval = None\<rparr> st of
               (a, st1) \<Rightarrow>
                 (case setInterval ''dm'' (st1\<lparr>roomStates := (roomStates st1)(''dm'' \<mapsto> a)\<rparr>) of
                    (h, st2) \<Rightarrow> set_pollingInterval a h st2)))"

definition initializeDMChannel :: "'w BrowserDiscordManager \<Rightarrow> 'w BrowserDiscordManager" where
  "initializeDMChannel st = startPollingDMs (st\<lparr>currentDMChannel := Some ''202880968556544000''\<rparr>)"

definition registerAgent :: "IAgentRuntime \<Rightarrow> 'w BrowserDiscordManager \<Rightarrow> 'w BrowserDiscordManager" where
  "registerAgent runtime st = st\<lparr>agents := (agents st)(agentId runtime \<mapsto> runtime)\<rparr>"

definition resolve_token :: "IAgentRuntime \<Rightarrow> string" where
  "resolve_token runtime =
     (case or_else (or_else (discord_token runtime) (runtime_token runtime)) (Some []) of
        None \<Rightarrow> [] | Some t \<Rightarrow> t)"

definition constructor :: "IAgentRuntime \<Rightarrow> 'w \<Rightarrow> 'w BrowserDiscordManager" where
  "constructor runtime w =
     initializeDMChannel (registerAgent runtime
       \<lparr>rest_token = resolve_token runtime,
        agents = Map.empty,
        roomStates = Map.empty,
        messageHandlers = [],
        currentDMChannel = None,
        objects = (\<lambda>_. \<lparr>channelId = [], lastMessageId = None, pollingInterval = None\<rparr>),
        nextAddr = 0,
        timers = Map.empty,
        nextHandle = 1,
        logged = [(''BrowserDiscordManager constructor'', None)],
        net = [],
        calls = [],
        world = w\<rparr>)"

subsection \<open>The handler set\<close>

definition addMessageHandler :: "'w MessageHandler \<Rightarrow> 'w BrowserDiscordManager \<Rightarrow> 'w BrowserDiscordManager" where
  "addMessageHandler h st =
     (if hid h \<in> set (map hid (messageHandlers st)) then st
      else st\<lparr>messageHandlers := messageHandlers st @ [h]\<rparr>)"

definition removeMessageHandler :: "'w MessageHandler \<Rightarrow> 'w BrowserDiscordManager \<Rightarrow> 'w BrowserDiscordManager" where
  "removeMessageHandler h st =
     st\<lparr>messageHandlers := filter (\<lambda>g. hid g \<noteq> hid h) (messageHandlers st)\<rparr>"

subsection \<open>Handler fan-out\<close>

text \<open>The inner loop of \<open>handleNewMessages\<close>: every handler on one message, each in its own \<open>try\<close>.\<close>

fun call_handlers :: "'w MessageHandler list \<Rightarrow> APIMessage \<Rightarrow> 'w BrowserDiscordManager \<Rightarrow> 'w BrowserDiscordManager" where
  "call_handlers [] m st = st"
| "call_handlers (h # hs) m st =
     (case run h m (world st) of
        (r, w) \<Rightarrow>
          (let st1 = st\<lparr>calls := calls st @ [(hid h, msg_id m)], world := w\<rparr>
           in call_handlers hs m
                (case r of
                   None \<Rightarrow> st1
                 | Some e \<Rightarrow> log_line ''Error in message handler:'' (Some e) st1)))"

fun handleNewMessages :: "string \<Rightarrow> APIMessage list \<Rightarrow> 'w BrowserDiscordManager \<Rightarrow> 'w BrowserDiscordManager" where
  "handleNewMessages channel [] st = st"
| "handleNewMessages channel (m # ms) st =
     (if author_bot m then handleNewMessages channel ms st
      else handleNewMessages channel ms (call_handlers (messageHandlers st) m st))"

subsection \<open>One poll tick\<close>

text \<open>
  \<open>pollMessages key resp\<close> is one run of the method with nothing else running at its
  \<open>await\<close>s, \<open>resp\<close> being what \<open>fetch\<close> and \<open>response.json()\<close> give: an error
  thrown, or the parsed list (a parsed value whose \<open>length\<close> is not a positive number
  behaves as the empty list).
\<close>

definition pollMessages :: "string \<Rightarrow> error + APIMessage list \<Rightarrow> 'w BrowserDiscordManager \<Rightarrow> 'w BrowserDiscordManager" where
  "pollMessages key resp st =
     (case roomStates st key of
        None \<Rightarrow> st
      | Some a \<Rightarrow>
          if channelId (objects st a) = [] then st
          else
            (let st1 = send (Fetch (channelId (objects st a))
                              (''Bot '' @ template_string (rest_token_property st))) st
             in case resp of
                  Inl e \<Rightarrow> log_line ''Error polling messages:'' (Some e) st1
                | Inr [] \<Rightarrow> st1
                | Inr (m # ms) \<Rightarrow>
                    handleNewMessages (channelId (objects st1 a)) (rev (m # ms))
                      (set_lastMessageId a (msg_id m) st1)))"

subsection \<open>Switching the active channel\<close>

text \<open>
  The method up to its \<open>await this.rest.get(...)\<close>: the address returned is the local
  variable \<open>state\<close> that the rest of the method keeps.
\<close>

definition setActiveChannel_begin :: "string \<Rightarrow> string \<Rightarrow> 'w BrowserDiscordManager \<Rightarrow> addr \<times> 'w BrowserDiscordManager" where
  "setActiveChannel_begin agent channel st =
     (let st1 = (case room st agent of
                   None \<Rightarrow> st
                 | Some existing \<Rightarrow>
                     (case pollingInterval existing of
                        None \<Rightarrow> st
                      | Some h \<Rightarrow> clearInterval h st))
      in case new_object \<lparr>channelId = channel, lastMessageId = None, pollingInterval = None\<rparr> st1 of
           (a, st2) \<Rightarrow>
             (a, send (RestGet channel 1) (st2\<lparr>roomStates := (roomStates st2)(agent \<mapsto> a)\<rparr>)))"

text \<open>The method from the moment the request settles, with what it settled to.\<close>

definition setActiveChannel_resume :: "string \<Rightarrow> addr \<Rightarrow> error + APIMessage list \<Rightarrow> 'w BrowserDiscordManager \<Rightarrow> (error + unit) \<times> 'w BrowserDiscordManager" where
  "setActiveChannel_resume agent a resp st =
     (case resp of
        Inl e \<Rightarrow> (Inr (), log_line ''Error fetching channel messages:'' (Some e) st)
      | Inr messages \<Rightarrow>
          (let st1 = (case messages of [] \<Rightarrow> st | m # _ \<Rightarrow> set_lastMessageId a (msg_id m) st)
           in case setInterval agent st1 of
                (h, st2) \<Rightarrow> (Inr (), set_pollingInterval a h st2)))"

text \<open>A call with nothing else running between its two halves.\<close>

definition setActiveChannel :: "string \<Rightarrow> string \<Rightarrow> error + APIMessage list \<Rightarrow> 'w BrowserDiscordManager \<Rightarrow> (error + unit) \<times> 'w BrowserDiscordManager" where
  "setActiveChannel agent channel resp st =
     (case setActiveChannel_begin agent channel st of
        (a, st1) \<Rightarrow> setActiveChannel_resume agent a resp st1)"

subsection \<open>Sending\<close>

text \<open>\<open>state?.channelId || this.currentDMChannel\<close>, and \<open>None\<close> when the result is falsy.\<close>

definition resolveChannel :: "'w BrowserDiscordManager \<Rightarrow> string \<Rightarrow> string option" where
  "resolveChannel st agent =
     (let c = or_else (map_option channelId (room st agent)) (currentDMChannel st)
      in if truthy c then c else None)"

text \<open>
  One run of the method with nothing else running at its \<open>await\<close>s.
  \<open>stringToUuid\<close> comes from the runtime's library and \<open>now\<close> is \<open>Date.now()\<close>;
  \<open>posted\<close> is what \<open>rest.post\<close> settles to and \<open>stored\<close> the error that
  \<open>createMemory\<close> throws, if any. Both are read only when the method reaches the call.
  The first \<open>throw\<close> is outside the \<open>try\<close> and is not logged.
\<close>

definition sendMessage :: "(string \<Rightarrow> UUID) \<Rightarrow> nat \<Rightarrow> string \<Rightarrow> Content \<Rightarrow> error + APIMessage \<Rightarrow> error option \<Rightarrow> 'w BrowserDiscordManager \<Rightarrow> (error + Memory) \<times> 'w BrowserDiscordManager" where
  "sendMessage stringToUuid now agent content posted stored st =
     (case agents st agent of
        None \<Rightarrow> (Inl NotFound, st)
      | Some runtime \<Rightarrow>
          (case resolveChannel st agent of
             None \<Rightarrow> (Inl NotFound, st)
           | Some channel \<Rightarrow>
               (let st1 = send (RestPost channel (text_c content)
                                  (if truthy (inReplyTo content) then inReplyTo content else None)) st
                in case posted of
                     Inl e \<Rightarrow> (Inl e, log_line ''Error sending Discord message:'' (Some e) st1)
                   | Inr response \<Rightarrow>
                       (let memory =
                              \<lparr>id_m = stringToUuid (msg_id response),
                               agentId_m = agentId runtime,
                               userId_m = agentId runtime,
                               roomId_m = stringToUuid channel,
                               content_m = \<lparr>text_m = text_c content, source_m = ''discord'',
                                            inReplyTo_m = inReplyTo content\<rparr>,
                               createdAt_m = now\<rparr>
                        in case stored of
                             Some e \<Rightarrow> (Inl e, log_line ''Error sending Discord message:'' (Some e) st1)
                           | None \<Rightarrow>
                               (Inr memory,
                                case roomStates st1 agent of
                                  None \<Rightarrow> st1
                                | Some a \<Rightarrow> set_lastMessageId a (msg_id response) st1)))))"

subsection \<open>Cleanup\<close>

definition cleanup :: "string \<Rightarrow> 'w BrowserDiscordManager \<Rightarrow> 'w BrowserDiscordManager" where
  "cleanup agent st =
     (let st1 = (case room st agent of
                   None \<Rightarrow> st
                 | Some s \<Rightarrow>
                     (case pollingInterval s of
                        None \<Rightarrow> st
                      | Some h \<Rightarrow> clearInterval h st))
      in st1\<lparr>roomStates := (roomStates st1)(agent := None),
             agents := (agents st1)(agent := None),
             messageHandlers := []\<rparr>)"

subsection \<open>Runs of the public interface\<close>

text \<open>
  What a client of the manager and the platform's timers can do to it after construction,
  each operation run to its end before the next one starts. \<open>Tick h\<close> is the timer \<open>h\<close>
  firing: nothing happens if it has been cleared.
\<close>

datatype 'w operation =
    AddMessageHandler "'w MessageHandler"
  | RemoveMessageHandler "'w MessageHandler"
  | SetActiveChannel string string "error + APIMessage list"
  | SendMessage nat string Content "error + APIMessage" "error option"
  | Cleanup string
  | Tick handle "error + APIMessage list"

fun perform :: "(string \<Rightarrow> UUID) \<Rightarrow> 'w operation \<Rightarrow> 'w BrowserDiscordManager \<Rightarrow> 'w BrowserDiscordManager" where
  "perform u (AddMessageHandler h) st = addMessageHandler h st"
| "perform u (RemoveMessageHandler h) st = removeMessageHandler h st"
| "perform u (SetActiveChannel agent channel resp) st = snd (setActiveChannel agent channel resp st)"
| "perform u (SendMessage now agent content posted stored) st =
     snd (sendMessage u now agent content posted stored st)"
| "perform u (Cleanup agent) st = cleanup agent st"
| "perform u (Tick h resp) st =
     (case timers st h of None \<Rightarrow> st | Some key \<Rightarrow> pollMessages key resp st)"

fun perform_all :: "(string \<Rightarrow> UUID) \<Rightarrow> 'w operation list \<Rightarrow> 'w BrowserDiscordManager \<Rightarrow> 'w BrowserDiscordManager" where
  "perform_all u [] st = st"
| "perform_all u (x # xs) st = perform_all u xs (perform u x st)"

section \<open>Concrete inputs\<close>

text \<open>
  A runtime, the manager built from it, two handlers (the first counts its calls in its
  state, the second always throws), and some platform messages. The handlers' state is a
  counter.
\<close>

definition ex_runtime :: IAgentRuntime where
  "ex_runtime = \<lparr>agentId = ''agent-1'', discord_token = Some ''tok'', runtime_token = None\<rparr>"

definition ex_manager :: "nat BrowserDiscordManager" where
  "ex_manager = constructor ex_runtime 0"

definition ex_counting :: "nat MessageHandler" where
  "ex_counting = MessageHandler 1 (\<lambda>m w. (None, Suc w))"

definition ex_throwing :: "nat MessageHandler" where
  "ex_throwing = MessageHandler 2 (\<lambda>m w. (Some (Thrown ''boom''), w))"

definition ex_msg :: "string \<Rightarrow> bool \<Rightarrow> APIMessage" where
  "ex_msg i b = \<lparr>msg_id = i, author_bot = b, msg_content = ''hello''\<rparr>"

definition ex_batch :: "APIMessage list" where
  "ex_batch = [ex_msg ''3'' False, ex_msg ''2'' True, ex_msg ''1'' False]"

definition ex_content :: Content where
  "ex_content = \<lparr>text_c = ''hi'', inReplyTo = None\<rparr>"

definition ex_uuid :: "string \<Rightarrow> UUID" where
  "ex_uuid s = ''uuid-'' @ s"

definition ex_handled :: "nat BrowserDiscordManager" where
  "ex_handled = addMessageHandler ex_counting ex_manager"

text \<open>The agent switched to a channel whose most recent message is \<open>41\<close>.\<close>

definition ex_switched :: "nat BrowserDiscordManager" where
  "ex_switched = snd (setActiveChannel ''agent-1'' ''chan-7'' (Inr [ex_msg ''41'' False]) ex_manager)"

text \<open>Two ticks of the direct-message room that are answered with the same one message.\<close>

definition ex_polled_once :: "nat BrowserDiscordManager" where
  "ex_polled_once = pollMessages ''dm'' (Inr [ex_msg ''3'' False]) ex_handled"

definition ex_polled_twice :: "nat BrowserDiscordManager" where
  "ex_polled_twice = pollMessages ''dm'' (Inr [ex_msg ''3'' False]) ex_polled_once"

text \<open>
  Two calls of \<open>setActiveChannel\<close> for the same agent, the second made while the first
  waits for its seed request; then the first request settles, then the second.
\<close>

definition ex_first_call :: "addr \<times> nat BrowserDiscordManager" where
  "ex_first_call = setActiveChannel_begin ''agent-1'' ''chan-1'' ex_manager"

definition ex_second_call :: "addr \<times> nat BrowserDiscordManager" where
  "ex_second_call = setActiveChannel_begin ''agent-1'' ''chan-2'' (snd ex_first_call)"

definition ex_first_settled :: "nat BrowserDiscordManager" where
  "ex_first_settled =
     snd (setActiveChannel_resume ''agent-1'' (fst ex_first_call) (Inr []) (snd ex_second_call))"

definition ex_both_settled :: "nat BrowserDiscordManager" where
  "ex_both_settled =
     snd (setActiveChannel_resume ''agent-1'' (fst ex_second_call) (Inr []) ex_first_settled)"

section \<open>The timer invariant\<close>

text \<open>
  Every active timer is the one recorded in the room state of the key it polls, and every
  room state in the map has been allocated.
\<close>

definition timers_recorded :: "'w BrowserDiscordManager \<Rightarrow> bool" where
  "timers_recorded st =
     ((\<forall>h key. timers st h = Some key \<longrightarrow>
         h < nextHandle st \<and>
         (\<exists>a. roomStates st key = Some a \<and> pollingInterval (objects st a) = Some h)) \<and>
      (\<forall>key a. roomStates st key = Some a \<longrightarrow> a < nextAddr st))"

section \<open>What the fan-out changes\<close>

text \<open>
  Calling handlers touches the call trace, the handlers' own state and the log, and nothing
  else of the manager.
\<close>

lemmas helper_defs = setInterval_def clearInterval_def log_line_def send_def
  new_object_def set_lastMessageId_def set_pollingInterval_def

lemma call_handlers_frame:
  "rest_token (call_handlers hs m st) = rest_token st"
  "agents (call_handlers hs m st) = agents st"
  "roomStates (call_handlers hs m st) = roomStates st"
  "messageHandlers (call_handlers hs m st) = messageHandlers st"
  "currentDMChannel (call_handlers hs m st) = currentDMChannel st"
  "objects (call_handlers hs m st) = objects st"
  "nextAddr (call_handlers hs m st) = nextAddr st"
  "timers (call_handlers hs m st) = timers st"
  "nextHandle (call_handlers hs m st) = nextHandle st"
  "net (call_handlers hs m st) = net st"
  by (induction hs arbitrary: st; simp add: log_line_def Let_def split: prod.splits option.splits)+

lemma call_handlers_calls:
  "calls (call_handlers hs m st) = calls st @ map (\<lambda>h. (hid h, msg_id m)) hs"
  by (induction hs arbitrary: st) (simp_all add: log_line_def Let_def split: prod.splits option.splits)

lemma handleNewMessages_frame:
  "rest_token (handleNewMessages c ms st) = rest_token st"
  "agents (handleNewMessages c ms st) = agents st"
  "roomStates (handleNewMessages c ms st) = roomStates st"
  "messageHandlers (handleNewMessages c ms st) = messageHandlers st"
  "currentDMChannel (handleNewMessages c ms st) = currentDMChannel st"
  "objects (handleNewMessages c ms st) = objects st"
  "nextAddr (handleNewMessages c ms st) = nextAddr st"
  "timers (handleNewMessages c ms st) = timers st"
  "nextHandle (handleNewMessages c ms st) = nextHandle st"
  "net (handleNewMessages c ms st) = net st"
  by (induction ms arbitrary: st; simp add: call_handlers_frame)+

lemma handleNewMessages_calls:
  "calls (handleNewMessages c ms st) =
     calls st @ concat (map (\<lambda>m. map (\<lambda>h. (hid h, msg_id m)) (messageHandlers st))
                          (filter (\<lambda>m. \<not> author_bot m) ms))"
  by (induction ms arbitrary: st) (simp_all add: call_handlers_calls call_handlers_frame)

text \<open>
  The log and the handlers' state after the fan-out: each run of a handler on a message
  starts from the state the run before it left, and adds one log line when it throws.
\<close>

lemma call_handlers_exact:
  "(logged (call_handlers hs m st), world (call_handlers hs m st)) =
     foldl (\<lambda>lw hm. (fst lw @ (case fst (run (fst hm) (snd hm) (snd lw)) of
                                  None \<Rightarrow> []
                                | Some e \<Rightarrow> [(''Error in message handler:'', Some e)]),
                      snd (run (fst hm) (snd hm) (snd lw))))
       (logged st, world st) (map (\<lambda>h. (h, m)) hs)"
  by (induction hs arbitrary: st)
    (simp_all add: log_line_def Let_def split: prod.splits option.splits)

lemma handleNewMessages_exact:
  "(logged (handleNewMessages c ms st), world (handleNewMessages c ms st)) =
     foldl (\<lambda>lw hm. (fst lw @ (case fst (run (fst hm) (snd hm) (snd lw)) of
                                  None \<Rightarrow> []
                                | Some e \<Rightarrow> [(''Error in message handler:'', Some e)]),
                      snd (run (fst hm) (snd hm) (snd lw))))
       (logged st, world st)
       (concat (map (\<lambda>m. map (\<lambda>h. (h, m)) (messageHandlers st))
                    (filter (\<lambda>m. \<not> author_bot m) ms)))"
proof (induction ms arbitrary: st)
  case Nil
  show ?case by simp
next
  case (Cons m ms)
  show ?case
  proof (cases "author_bot m")
    case True
    with Cons.IH [of st] show ?thesis by simp
  next
    case False
    with Cons.IH [of "call_handlers (messageHandlers st) m st"]
      call_handlers_exact [of "messageHandlers st" m st]
    show ?thesis by (simp add: call_handlers_frame)
  qed
qed

section \<open>What each method changes\<close>

lemma handleNewMessages_no_handlers:
  "messageHandlers st = [] \<Longrightarrow> handleNewMessages c ms st = st"
  by (induction ms arbitrary: st) simp_all

lemma cleanup_fields:
  "agents (cleanup agent st) = (agents st)(agent := None)"
  "roomStates (cleanup agent st) = (roomStates st)(agent := None)"
  "messageHandlers (cleanup agent st) = []"
  "calls (cleanup agent st) = calls st"
  by (simp_all add: cleanup_def clearInterval_def Let_def split: option.splits)

lemma pollMessages_agents: "agents (pollMessages key resp st) = agents st"
  by (simp add: pollMessages_def Let_def handleNewMessages_frame helper_defs
      split: option.splits sum.splits list.splits)

lemma setActiveChannel_agents: "agents (snd (setActiveChannel agent channel resp st)) = agents st"
  by (simp add: setActiveChannel_def setActiveChannel_begin_def setActiveChannel_resume_def
      Let_def helper_defs split: option.splits sum.splits list.splits prod.splits)

lemma sendMessage_agents: "agents (snd (sendMessage u now agent content posted stored st)) = agents st"
  by (simp add: sendMessage_def Let_def helper_defs split: option.splits sum.splits)

lemma perform_agents_None: "agents st agent = None \<Longrightarrow> agents (perform u x st) agent = None"
  by (cases x)
    (simp_all add: addMessageHandler_def removeMessageHandler_def setActiveChannel_agents
       sendMessage_agents cleanup_fields pollMessages_agents split: option.splits)

lemma perform_all_agents_None:
  "agents st agent = None \<Longrightarrow> agents (perform_all u xs st) agent = None"
  by (induction xs arbitrary: st) (simp_all add: perform_agents_None)

lemma sendMessage_unregistered:
  "agents st agent = None \<Longrightarrow> sendMessage u now agent content posted stored st = (Inl NotFound, st)"
  by (simp add: sendMessage_def)

lemma setActiveChannel_begin_fields:
  "fst (setActiveChannel_begin agent channel st) = nextAddr st"
  "roomStates (snd (setActiveChannel_begin agent channel st)) = (roomStates st)(agent \<mapsto> nextAddr st)"
  "objects (snd (setActiveChannel_begin agent channel st)) =
     (objects st)(nextAddr st := \<lparr>channelId = channel, lastMessageId = None, pollingInterval = None\<rparr>)"
  "nextAddr (snd (setActiveChannel_begin agent channel st)) = Suc (nextAddr st)"
  "nextHandle (snd (setActiveChannel_begin agent channel st)) = nextHandle st"
  "logged (snd (setActiveChannel_begin agent channel st)) = logged st"
  "agents (snd (setActiveChannel_begin agent channel st)) = agents st"
  "messageHandlers (snd (setActiveChannel_begin agent channel st)) = messageHandlers st"
  "net (snd (setActiveChannel_begin agent channel st)) = net st @ [RestGet channel 1]"
  by (cases "room st agent"; 
      simp add: setActiveChannel_begin_def Let_def helper_defs split: option.splits)+

lemma setActiveChannel_begin_timers:
  "timers (snd (setActiveChannel_begin agent channel st)) =
     (case room st agent of
        None \<Rightarrow> timers st
      | Some existing \<Rightarrow>
          (case pollingInterval existing of
             None \<Rightarrow> timers st
           | Some h \<Rightarrow> (timers st)(h := None)))"
  by (cases "room st agent"; 
      simp add: setActiveChannel_begin_def Let_def helper_defs split: option.splits)

lemma setActiveChannel_begin_timers_le:
  "timers (snd (setActiveChannel_begin agent channel st)) \<subseteq>\<^sub>m timers st"
  by (simp add: setActiveChannel_begin_timers map_le_def split: option.splits)

lemma setActiveChannel_resume_failed:
  "setActiveChannel_resume agent a (Inl e) st =
     (Inr (), log_line ''Error fetching channel messages:'' (Some e) st)"
  by (simp add: setActiveChannel_resume_def)

lemma setActiveChannel_resume_fields:
  "fst (setActiveChannel_resume agent a (Inr messages) st) = Inr ()"
  "roomStates (snd (setActiveChannel_resume agent a (Inr messages) st)) = roomStates st"
  "pollingInterval (objects (snd (setActiveChannel_resume agent a (Inr messages) st)) a) = Some (nextHandle st)"
  "channelId (objects (snd (setActiveChannel_resume agent a (Inr messages) st)) a) = channelId (objects st a)"
  "timers (snd (setActiveChannel_resume agent a (Inr messages) st)) = (timers st)(nextHandle st \<mapsto> agent)"
  "nextHandle (snd (setActiveChannel_resume agent a (Inr messages) st)) = Suc (nextHandle st)"
  "logged (snd (setActiveChannel_resume agent a (Inr messages) st)) = logged st"
  by (cases messages; simp add: setActiveChannel_resume_def Let_def helper_defs)+

section \<open>Evaluation of the concrete inputs\<close>

text \<open>The equations that unfold the methods and the concrete inputs in closed statements.\<close>

lemmas method_defs = truthy_def or_else_def room_def timers_of_def
  rest_token_property_def template_string_def
  startPollingDMs_def initializeDMChannel_def registerAgent_def resolve_token_def constructor_def
  addMessageHandler_def removeMessageHandler_def pollMessages_def setActiveChannel_begin_def
  setActiveChannel_resume_def setActiveChannel_def resolveChannel_def sendMessage_def cleanup_def

lemmas ex_defs = ex_runtime_def ex_manager_def ex_counting_def ex_throwing_def ex_msg_def
  ex_batch_def ex_content_def ex_uuid_def ex_handled_def ex_switched_def ex_polled_once_def
  ex_polled_twice_def ex_first_call_def ex_second_call_def ex_first_settled_def ex_both_settled_def

section \<open>Cleanup\<close>

text \<open>
  Claim C9. For every agent id, \<open>cleanup\<close> clears the whole handler set: after the cleanup
  of any single agent no handler is registered any more, whoever registered it and for
  whatever agent, so a batch handled afterwards calls nothing.
\<close>

theorem cleanup_clears_every_handler:
  "messageHandlers (cleanup agent st) = [] \<and>
   calls (handleNewMessages channel ms (cleanup agent st)) = calls st"
  by (simp add: cleanup_fields handleNewMessages_no_handlers)

theorem cleanup_clears_every_handler_witness:
  "messageHandlers ex_handled = [ex_counting] \<and>
   messageHandlers (cleanup ''someone-else'' ex_handled) = [] \<and>
   calls (handleNewMessages ''chan-7'' ex_batch (cleanup ''someone-else'' ex_handled)) = []"
  using cleanup_clears_every_handler [of "''someone-else''" ex_handled "''chan-7''" ex_batch]
  by (simp add: method_defs helper_defs ex_defs)

text \<open>
  Claim C8. For every agent id, \<open>cleanup\<close> removes the agent's entry from the registry
  and from the room-state map, and any later \<open>sendMessage\<close> for that agent, after whatever
  further operations of the manager, fails with the not-found error and leaves the manager
  as it was.
\<close>

theorem cleanup_then_sendMessage_not_found:
  "agents (cleanup agent st) agent = None \<and>
   roomStates (cleanup agent st) agent = None \<and>
   sendMessage u now agent content posted stored (perform_all u xs (cleanup agent st)) =
     (Inl NotFound, perform_all u xs (cleanup agent st))"
proof -
  have a: "agents (cleanup agent st) agent = None" by (simp add: cleanup_fields)
  have r: "roomStates (cleanup agent st) agent = None" by (simp add: cleanup_fields)
  from a have "agents (perform_all u xs (cleanup agent st)) agent = None"
    by (rule perform_all_agents_None)
  then have "sendMessage u now agent content posted stored (perform_all u xs (cleanup agent st)) =
     (Inl NotFound, perform_all u xs (cleanup agent st))"
    by (rule sendMessage_unregistered)
  with a r show ?thesis by simp
qed

theorem cleanup_then_sendMessage_not_found_witness:
  "agents ex_switched ''agent-1'' = Some ex_runtime \<and>
   room ex_switched ''agent-1'' =
     Some \<lparr>channelId = ''chan-7'', lastMessageId = Some ''41'', pollingInterval = Some 2\<rparr> \<and>
   agents (cleanup ''agent-1'' ex_switched) ''agent-1'' = None \<and>
   roomStates (cleanup ''agent-1'' ex_switched) ''agent-1'' = None \<and>
   fst (sendMessage ex_uuid 5 ''agent-1'' ex_content (Inr (ex_msg ''77'' True)) None
          (perform_all ex_uuid [SetActiveChannel ''agent-1'' ''chan-8'' (Inr [])]
             (cleanup ''agent-1'' ex_switched))) = Inl NotFound"
  using cleanup_then_sendMessage_not_found
    [of "''agent-1''" ex_switched ex_uuid 5 ex_content "Inr (ex_msg ''77'' True)" None
        "[SetActiveChannel ''agent-1'' ''chan-8'' (Inr [])]"]
  by (simp add: method_defs helper_defs ex_defs)

section \<open>Sending\<close>

text \<open>
  Claim C4. \<open>sendMessage\<close> fails with the not-found error without issuing any request
  exactly when no runtime is registered for the agent or no channel can be resolved: the
  agent has no room state with a non-empty channel id and there is no non-empty default
  direct-message channel.
\<close>

theorem sendMessage_not_found_iff:
  "(fst (sendMessage u now agent content posted stored st) = Inl NotFound \<and>
    net (snd (sendMessage u now agent content posted stored st)) = net st)
   = (agents st agent = None \<or>
      (\<not> truthy (map_option channelId (room st agent)) \<and> \<not> truthy (currentDMChannel st)))"
  by (auto simp add: sendMessage_def resolveChannel_def or_else_def truthy_def Let_def helper_defs
      split: option.splits sum.splits if_splits)

theorem sendMessage_not_found_iff_witness:
  "agents ex_manager ''nobody'' = None \<and>
   fst (sendMessage ex_uuid 5 ''nobody'' ex_content (Inr (ex_msg ''77'' True)) None ex_manager) = Inl NotFound \<and>
   net (snd (sendMessage ex_uuid 5 ''nobody'' ex_content (Inr (ex_msg ''77'' True)) None ex_manager)) = [] \<and>
   agents ex_manager ''agent-1'' = Some ex_runtime \<and> truthy (currentDMChannel ex_manager) \<and>
   \<not> (fst (sendMessage ex_uuid 5 ''agent-1'' ex_content (Inl (Thrown ''down'')) None ex_manager) = Inl NotFound \<and>
      net (snd (sendMessage ex_uuid 5 ''agent-1'' ex_content (Inl (Thrown ''down'')) None ex_manager)) = net ex_manager)"
proof -
  have n: "agents ex_manager ''nobody'' = None"
    by (simp add: method_defs helper_defs ex_defs)
  have a: "agents ex_manager ''agent-1'' = Some ex_runtime"
    by (simp add: method_defs helper_defs ex_defs)
  have d: "truthy (currentDMChannel ex_manager)"
    by (simp add: method_defs helper_defs ex_defs)
  have e: "net ex_manager = []"
    by (simp add: method_defs helper_defs ex_defs)
  from n a d e
    sendMessage_not_found_iff [of ex_uuid 5 "''nobody''" ex_content "Inr (ex_msg ''77'' True)" None ex_manager]
    sendMessage_not_found_iff [of ex_uuid 5 "''agent-1''" ex_content "Inl (Thrown ''down'')" None ex_manager]
  show ?thesis by simp
qed

text \<open>
  Claim C10. When the runtime and the channel are resolved and the HTTP post throws, or the
  post succeeds and the memory store throws, \<open>sendMessage\<close> logs the error and raises it
  again, and no room state is changed: the cursor is written only after the memory record
  has been stored.
\<close>

theorem sendMessage_failure_keeps_cursor:
  assumes "agents st agent = Some runtime"
    and "resolveChannel st agent = Some channel"
    and "posted = Inl e \<or> (posted = Inr response \<and> stored = Some e)"
  shows "fst (sendMessage u now agent content posted stored st) = Inl e \<and>
         logged (snd (sendMessage u now agent content posted stored st)) =
           logged st @ [(''Error sending Discord message:'', Some e)] \<and>
         roomStates (snd (sendMessage u now agent content posted stored st)) = roomStates st \<and>
         objects (snd (sendMessage u now agent content posted stored st)) = objects st"
  using assms by (auto simp add: sendMessage_def Let_def helper_defs)

theorem sendMessage_failure_keeps_cursor_witness:
  "agents ex_switched ''agent-1'' = Some ex_runtime \<and>
   resolveChannel ex_switched ''agent-1'' = Some ''chan-7'' \<and>
   fst (sendMessage ex_uuid 5 ''agent-1'' ex_content (Inl (Thrown ''down'')) None ex_switched) =
     Inl (Thrown ''down'') \<and>
   map_option lastMessageId
     (room (snd (sendMessage ex_uuid 5 ''agent-1'' ex_content (Inl (Thrown ''down'')) None ex_switched))
        ''agent-1'') = Some (Some ''41'') \<and>
   fst (sendMessage ex_uuid 5 ''agent-1'' ex_content (Inr (ex_msg ''77'' True)) (Some (Thrown ''full'')) ex_switched) =
     Inl (Thrown ''full'') \<and>
   map_option lastMessageId
     (room (snd (sendMessage ex_uuid 5 ''agent-1'' ex_content (Inr (ex_msg ''77'' True)) (Some (Thrown ''full'')) ex_switched))
        ''agent-1'') = Some (Some ''41'')"
proof -
  have a: "agents ex_switched ''agent-1'' = Some ex_runtime"
    by (simp add: method_defs helper_defs ex_defs)
  have c: "resolveChannel ex_switched ''agent-1'' = Some ''chan-7''"
    by (simp add: method_defs helper_defs ex_defs)
  have r: "map_option lastMessageId (room ex_switched ''agent-1'') = Some (Some ''41'')"
    by (simp add: method_defs helper_defs ex_defs)
  have p: "Inl (Thrown ''down'') = (Inl (Thrown ''down'') :: error + APIMessage) \<or>
           ((Inl (Thrown ''down'') :: error + APIMessage) = Inr (ex_msg ''77'' True) \<and> None = Some (Thrown ''down''))"
    by simp
  have s: "(Inr (ex_msg ''77'' True) :: error + APIMessage) = Inl (Thrown ''full'') \<or>
           ((Inr (ex_msg ''77'' True) :: error + APIMessage) = Inr (ex_msg ''77'' True) \<and>
            Some (Thrown ''full'') = Some (Thrown ''full''))"
    by simp
  from a c r
    sendMessage_failure_keeps_cursor [OF a c p, of ex_uuid 5 ex_content]
    sendMessage_failure_keeps_cursor [OF a c s, of ex_uuid 5 ex_content]
  show ?thesis by (simp add: room_def)
qed

text \<open>
  A successful send through the default direct-message channel: the agent has no room
  state of its own, the guard \<open>if (state)\<close> skips the write, and the cursor of the
  direct-message room stays empty.
\<close>

theorem sendMessage_dm_fallback_counterexample:
  "fst (sendMessage ex_uuid 5 ''agent-1'' ex_content (Inr (ex_msg ''77'' True)) None ex_manager) =
     Inr \<lparr>id_m = ''uuid-77'', agentId_m = ''agent-1'', userId_m = ''agent-1'',
          roomId_m = ''uuid-202880968556544000'',
          content_m = \<lparr>text_m = ''hi'', source_m = ''discord'', inReplyTo_m = None\<rparr>,
          createdAt_m = 5\<rparr> \<and>
   room (snd (sendMessage ex_uuid 5 ''agent-1'' ex_content (Inr (ex_msg ''77'' True)) None ex_manager)) ''agent-1'' = None \<and>
   room (snd (sendMessage ex_uuid 5 ''agent-1'' ex_content (Inr (ex_msg ''77'' True)) None ex_manager)) ''dm'' =
     Some \<lparr>channelId = ''202880968556544000'', lastMessageId = None, pollingInterval = Some 1\<rparr>"
  by (simp add: method_defs helper_defs ex_defs)

text \<open>
  Claim C5, as the code has it. Every successful \<open>sendMessage\<close> returns a memory whose
  \<open>roomId\<close> is \<open>stringToUuid\<close> of the resolved channel and whose \<open>id\<close> is
  \<open>stringToUuid\<close> of the platform's message id; the room-state map is unchanged; when the
  agent has a room state, the cursor of that room state becomes the id of the message just
  sent, and when it has none (the channel is the default direct-message channel) no room
  state changes.
\<close>

theorem sendMessage_success:
  assumes "sendMessage u now agent content posted stored st = (Inr memory, st')"
  shows "\<exists>channel response.
           resolveChannel st agent = Some channel \<and> posted = Inr response \<and> stored = None \<and>
           roomId_m memory = u channel \<and> id_m memory = u (msg_id response) \<and>
           roomStates st' = roomStates st \<and>
           (case roomStates st agent of
              None \<Rightarrow> objects st' = objects st
            | Some a \<Rightarrow> lastMessageId (objects st' a) = Some (msg_id response))"
  using assms
  by (auto simp add: sendMessage_def Let_def helper_defs split: option.splits sum.splits)

theorem sendMessage_success_witness:
  "fst (sendMessage ex_uuid 5 ''agent-1'' ex_content (Inr (ex_msg ''77'' True)) None ex_switched) =
     Inr \<lparr>id_m = ''uuid-77'', agentId_m = ''agent-1'', userId_m = ''agent-1'',
          roomId_m = ''uuid-chan-7'',
          content_m = \<lparr>text_m = ''hi'', source_m = ''discord'', inReplyTo_m = None\<rparr>,
          createdAt_m = 5\<rparr> \<and>
   room (snd (sendMessage ex_uuid 5 ''agent-1'' ex_content (Inr (ex_msg ''77'' True)) None ex_switched)) ''agent-1'' =
     Some \<lparr>channelId = ''chan-7'', lastMessageId = Some ''77'', pollingInterval = Some 2\<rparr>"
proof -
  let ?r = "sendMessage ex_uuid 5 ''agent-1'' ex_content (Inr (ex_msg ''77'' True)) None ex_switched"
  let ?m = "\<lparr>id_m = ''uuid-77'', agentId_m = ''agent-1'', userId_m = ''agent-1'',
          roomId_m = ''uuid-chan-7'',
          content_m = \<lparr>text_m = ''hi'', source_m = ''discord'', inReplyTo_m = None\<rparr>,
          createdAt_m = 5\<rparr>"
  have f: "fst ?r = Inr ?m"
    by (simp add: method_defs helper_defs ex_defs)
  then have e: "?r = (Inr ?m, snd ?r)"
    by (simp add: prod_eq_iff)
  have k: "roomStates ex_switched ''agent-1'' = Some 1"
    by (simp add: method_defs helper_defs ex_defs)
  have o: "channelId (objects (snd ?r) 1) = ''chan-7'' \<and> pollingInterval (objects (snd ?r) 1) = Some 2"
    by (simp add: method_defs helper_defs ex_defs)
  from sendMessage_success [OF e] k
  have "roomStates (snd ?r) ''agent-1'' = Some 1 \<and> lastMessageId (objects (snd ?r) 1) = Some ''77''"
    by (auto simp add: ex_msg_def)
  with f o show ?thesis
    by (simp add: room_def DiscordRoomState.equality)
qed

section \<open>Polling\<close>

text \<open>
  Claim C3. A poll tick on a room with a channel that is answered with a non-empty batch
  sets the room's cursor to the id of the batch's first item and runs the handlers on the
  non-bot messages of the reversed batch, in that order, every handler on each: the call
  trace lists these calls, and the handlers' state and the log are what running the
  handlers one after the other on these messages gives, one log line for each call that
  throws. On the batch 3, 2 (bot), 1 the handler runs on 1, then on 3, and the cursor is 3.
\<close>

theorem pollMessages_batch:
  assumes "roomStates st key = Some a"
    and "channelId (objects st a) \<noteq> []"
  shows "lastMessageId (objects (pollMessages key (Inr (m # ms)) st) a) = Some (msg_id m) \<and>
         roomStates (pollMessages key (Inr (m # ms)) st) key = Some a \<and>
         calls (pollMessages key (Inr (m # ms)) st) =
           calls st @ concat (map (\<lambda>x. map (\<lambda>h. (hid h, msg_id x)) (messageHandlers st))
                                (filter (\<lambda>x. \<not> author_bot x) (rev (m # ms)))) \<and>
         (logged (pollMessages key (Inr (m # ms)) st), world (pollMessages key (Inr (m # ms)) st)) =
           foldl (\<lambda>lw hx. (fst lw @ (case fst (run (fst hx) (snd hx) (snd lw)) of
                                        None \<Rightarrow> []
                                      | Some e \<Rightarrow> [(''Error in message handler:'', Some e)]),
                            snd (run (fst hx) (snd hx) (snd lw))))
             (logged st, world st)
             (concat (map (\<lambda>x. map (\<lambda>h. (h, x)) (messageHandlers st))
                          (filter (\<lambda>x. \<not> author_bot x) (rev (m # ms)))))"
proof -
  let ?s = "set_lastMessageId a (msg_id m)
              (send (Fetch (channelId (objects st a)) (''Bot '' @ template_string (rest_token_property st))) st)"
  from assms have p: "pollMessages key (Inr (m # ms)) st =
      handleNewMessages (channelId (objects st a)) (rev (m # ms)) ?s"
    by (simp add: pollMessages_def Let_def helper_defs)
  have f: "messageHandlers ?s = messageHandlers st" "logged ?s = logged st" "world ?s = world st"
    "calls ?s = calls st" "roomStates ?s = roomStates st"
    "lastMessageId (objects ?s a) = Some (msg_id m)"
    by (simp_all add: helper_defs)
  from handleNewMessages_calls [of "channelId (objects st a)" "rev (m # ms)" ?s]
    handleNewMessages_exact [of "channelId (objects st a)" "rev (m # ms)" ?s]
    assms f
  show ?thesis
    unfolding p by (simp add: handleNewMessages_frame)
qed

theorem pollMessages_batch_witness:
  "roomStates ex_handled ''dm'' = Some 0 \<and>
   channelId (objects ex_handled 0) \<noteq> [] \<and>
   lastMessageId (objects (pollMessages ''dm'' (Inr ex_batch) ex_handled) 0) = Some ''3'' \<and>
   roomStates (pollMessages ''dm'' (Inr ex_batch) ex_handled) ''dm'' = Some 0 \<and>
   calls (pollMessages ''dm'' (Inr ex_batch) ex_handled) = [(1, ''1''), (1, ''3'')] \<and>
   world ex_handled = 0 \<and>
   world (pollMessages ''dm'' (Inr ex_batch) ex_handled) = 2 \<and>
   logged (pollMessages ''dm'' (Inr ex_batch) ex_handled) = [(''BrowserDiscordManager constructor'', None)]"
proof -
  have k: "roomStates ex_handled ''dm'' = Some 0"
    by (simp add: method_defs helper_defs ex_defs)
  have c: "channelId (objects ex_handled 0) \<noteq> []"
    by (simp add: method_defs helper_defs ex_defs)
  have h: "messageHandlers ex_handled = [ex_counting]" "calls ex_handled = []"
    "world ex_handled = 0" "logged ex_handled = [(''BrowserDiscordManager constructor'', None)]"
    by (simp_all add: method_defs helper_defs ex_defs)
  from pollMessages_batch [OF k c, of "ex_msg ''3'' False" "[ex_msg ''2'' True, ex_msg ''1'' False]"] k c h
  show ?thesis
    by (simp add: ex_batch_def ex_msg_def ex_counting_def)
qed

text \<open>
  Claim C7. Whatever the handlers do, \<open>handleNewMessages\<close> runs every registered handler
  on every non-bot message of the batch, in order: a handler that throws stops neither the
  handlers after it nor the messages after this one. The handlers' state afterwards is that
  of all these runs, and the log has gained exactly one line, with the error, for each run
  that threw, in the order of the runs.
\<close>

theorem handlers_all_called:
  "calls (handleNewMessages channel ms st) =
     calls st @ concat (map (\<lambda>m. map (\<lambda>h. (hid h, msg_id m)) (messageHandlers st))
                          (filter (\<lambda>m. \<not> author_bot m) ms)) \<and>
   (logged (handleNewMessages channel ms st), world (handleNewMessages channel ms st)) =
     foldl (\<lambda>lw hm. (fst lw @ (case fst (run (fst hm) (snd hm) (snd lw)) of
                                  None \<Rightarrow> []
                                | Some e \<Rightarrow> [(''Error in message handler:'', Some e)]),
                      snd (run (fst hm) (snd hm) (snd lw))))
       (logged st, world st)
       (concat (map (\<lambda>m. map (\<lambda>h. (h, m)) (messageHandlers st))
                    (filter (\<lambda>m. \<not> author_bot m) ms)))"
  using handleNewMessages_calls [of channel ms st] handleNewMessages_exact [of channel ms st]
  by simp

theorem handlers_all_called_witness:
  "messageHandlers (addMessageHandler ex_counting (addMessageHandler ex_throwing ex_manager)) =
     [ex_throwing, ex_counting] \<and>
   calls (handleNewMessages ''chan-7'' (rev ex_batch)
            (addMessageHandler ex_counting (addMessageHandler ex_throwing ex_manager))) =
     [(2, ''1''), (1, ''1''), (2, ''3''), (1, ''3'')] \<and>
   world (handleNewMessages ''chan-7'' (rev ex_batch)
            (addMessageHandler ex_counting (addMessageHandler ex_throwing ex_manager))) = 2 \<and>
   logged (handleNewMessages ''chan-7'' (rev ex_batch)
            (addMessageHandler ex_counting (addMessageHandler ex_throwing ex_manager))) =
     [(''BrowserDiscordManager constructor'', None),
      (''Error in message handler:'', Some (Thrown ''boom'')),
      (''Error in message handler:'', Some (Thrown ''boom''))]"
proof -
  let ?st = "addMessageHandler ex_counting (addMessageHandler ex_throwing ex_manager)"
  have h: "messageHandlers ?st = [ex_throwing, ex_counting]" "calls ?st = []"
    "world ?st = 0" "logged ?st = [(''BrowserDiscordManager constructor'', None)]"
    by (simp_all add: method_defs helper_defs ex_defs)
  from handlers_all_called [of "''chan-7''" "rev ex_batch" ?st] h
  show ?thesis
    by (simp add: ex_batch_def ex_msg_def ex_counting_def ex_throwing_def)
qed

text \<open>
  The request of a tick is made of the channel id and a fixed header; the cursor is not
  part of it.
\<close>

lemma pollMessages_request:
  "net (pollMessages key resp st) =
     net st @ (case roomStates st key of
                 None \<Rightarrow> []
               | Some a \<Rightarrow>
                   if channelId (objects st a) = [] then []
                   else [Fetch (channelId (objects st a)) ''Bot undefined''])"
  by (simp add: pollMessages_def rest_token_property_def template_string_def Let_def handleNewMessages_frame helper_defs
      split: option.splits sum.splits list.splits)

text \<open>
  Claim C1, evaluated. The direct-message room is polled twice and the platform answers both
  times with the one message 3. After the first tick the cursor is 3 and the handler has
  been called on 3; the second tick sends the same request as the first and the handler is
  called on 3 again.
\<close>

theorem poll_dispatches_again:
  "map_option lastMessageId (room ex_polled_once ''dm'') = Some (Some ''3'') \<and>
   calls ex_polled_once = [(1, ''3'')] \<and>
   net ex_polled_twice =
     [Fetch ''202880968556544000'' ''Bot undefined'', Fetch ''202880968556544000'' ''Bot undefined''] \<and>
   calls ex_polled_twice = [(1, ''3''), (1, ''3'')]"
  by (simp add: method_defs helper_defs ex_defs)

section \<open>Switching the active channel\<close>

text \<open>
  What one call does. It never throws and always leaves the agent with a fresh room state
  on the new channel. When the seed request fails the error is logged and the \<open>catch\<close>
  is entered before \<open>setInterval\<close> is reached: the room state has no timer and no timer
  is created. When it succeeds nothing is logged and a new timer for the agent is installed
  and recorded in the room state.
\<close>

lemma setActiveChannel_outcome:
  "fst (setActiveChannel agent channel resp st) = Inr () \<and>
   map_option channelId (room (snd (setActiveChannel agent channel resp st)) agent) = Some channel \<and>
   (case resp of
      Inl e \<Rightarrow>
        logged (snd (setActiveChannel agent channel resp st)) =
          logged st @ [(''Error fetching channel messages:'', Some e)] \<and>
        map_option pollingInterval (room (snd (setActiveChannel agent channel resp st)) agent) = Some None \<and>
        nextHandle (snd (setActiveChannel agent channel resp st)) = nextHandle st \<and>
        timers (snd (setActiveChannel agent channel resp st)) \<subseteq>\<^sub>m timers st
    | Inr messages \<Rightarrow>
        logged (snd (setActiveChannel agent channel resp st)) = logged st \<and>
        map_option pollingInterval (room (snd (setActiveChannel agent channel resp st)) agent) =
          Some (Some (nextHandle st)) \<and>
        nextHandle (snd (setActiveChannel agent channel resp st)) = Suc (nextHandle st) \<and>
        timers (snd (setActiveChannel agent channel resp st)) (nextHandle st) = Some agent)"
proof (cases resp)
  case (Inl e)
  then show ?thesis
    by (simp add: setActiveChannel_def split_beta setActiveChannel_resume_failed log_line_def
        room_def setActiveChannel_begin_fields setActiveChannel_begin_timers_le)
next
  case (Inr messages)
  then show ?thesis
    by (simp add: setActiveChannel_def split_beta setActiveChannel_resume_fields
        room_def setActiveChannel_begin_fields)
qed

text \<open>
  Claim C2, evaluated. The agent polls a channel through timer 2 and switches to another
  channel; the seed request fails. The call returns normally and logs the error, but the old
  timer has been cancelled and the room replaced before the request, and the new timer is
  not installed: no timer polls the agent's room, whose state is left without one. The same
  switch with an empty answer to the seed request installs timer 3.
\<close>

theorem failed_seed_leaves_room_unpolled:
  "timers_of ex_switched ''agent-1'' = [2] \<and>
   fst (setActiveChannel ''agent-1'' ''chan-8'' (Inl (Thrown ''403'')) ex_switched) = Inr () \<and>
   logged (snd (setActiveChannel ''agent-1'' ''chan-8'' (Inl (Thrown ''403'')) ex_switched)) =
     [(''BrowserDiscordManager constructor'', None),
      (''Error fetching channel messages:'', Some (Thrown ''403''))] \<and>
   room (snd (setActiveChannel ''agent-1'' ''chan-8'' (Inl (Thrown ''403'')) ex_switched)) ''agent-1'' =
     Some \<lparr>channelId = ''chan-8'', lastMessageId = None, pollingInterval = None\<rparr> \<and>
   timers_of (snd (setActiveChannel ''agent-1'' ''chan-8'' (Inl (Thrown ''403'')) ex_switched)) ''agent-1'' = [] \<and>
   room (snd (setActiveChannel ''agent-1'' ''chan-8'' (Inr []) ex_switched)) ''agent-1'' =
     Some \<lparr>channelId = ''chan-8'', lastMessageId = None, pollingInterval = Some 3\<rparr> \<and>
   timers_of (snd (setActiveChannel ''agent-1'' ''chan-8'' (Inr []) ex_switched)) ''agent-1'' = [3]"
  by (simp add: method_defs helper_defs ex_defs upt_rec)

section \<open>One timer for each room key\<close>

text \<open>
  When every call runs to its end before the next one starts, the invariant
  \<open>timers_recorded\<close> holds in all states reached from the constructor, and with it no
  key has two active timers.
\<close>

lemma timers_recorded_constructor: "timers_recorded (constructor runtime w)"
  by (simp add: timers_recorded_def constructor_def initializeDMChannel_def startPollingDMs_def
      registerAgent_def helper_defs)

lemma pollMessages_frame:
  "timers (pollMessages key resp st) = timers st"
  "nextHandle (pollMessages key resp st) = nextHandle st"
  "roomStates (pollMessages key resp st) = roomStates st"
  "nextAddr (pollMessages key resp st) = nextAddr st"
  "pollingInterval (objects (pollMessages key resp st) x) = pollingInterval (objects st x)"
  by (simp_all add: pollMessages_def Let_def handleNewMessages_frame helper_defs
      split: option.splits sum.splits list.splits)

lemma sendMessage_frame:
  "timers (snd (sendMessage u now agent content posted stored st)) = timers st"
  "nextHandle (snd (sendMessage u now agent content posted stored st)) = nextHandle st"
  "roomStates (snd (sendMessage u now agent content posted stored st)) = roomStates st"
  "nextAddr (snd (sendMessage u now agent content posted stored st)) = nextAddr st"
  "pollingInterval (objects (snd (sendMessage u now agent content posted stored st)) x) =
     pollingInterval (objects st x)"
  by (simp_all add: sendMessage_def Let_def helper_defs split: option.splits sum.splits)

lemma timers_recordedD:
  assumes "timers_recorded st" and "timers st h = Some key"
  shows "h < nextHandle st"
    and "\<exists>a. roomStates st key = Some a \<and> pollingInterval (objects st a) = Some h"
  using assms unfolding timers_recorded_def by blast+

lemma rooms_allocated:
  assumes "timers_recorded st" and "roomStates st key = Some a"
  shows "a < nextAddr st"
  using assms unfolding timers_recorded_def by blast

lemma timers_recordedI:
  assumes "\<And>h key. timers st h = Some key \<Longrightarrow> h < nextHandle st"
    and "\<And>h key. timers st h = Some key \<Longrightarrow>
           \<exists>a. roomStates st key = Some a \<and> pollingInterval (objects st a) = Some h"
    and "\<And>key a. roomStates st key = Some a \<Longrightarrow> a < nextAddr st"
  shows "timers_recorded st"
  using assms unfolding timers_recorded_def by blast

lemma timers_recorded_frame:
  assumes "timers_recorded st"
    and "timers st' = timers st" and "nextHandle st' = nextHandle st"
    and "roomStates st' = roomStates st" and "nextAddr st' = nextAddr st"
    and "\<And>x. pollingInterval (objects st' x) = pollingInterval (objects st x)"
  shows "timers_recorded st'"
  using assms unfolding timers_recorded_def by simp

lemma cleanup_frame:
  "nextHandle (cleanup agent st) = nextHandle st"
  "nextAddr (cleanup agent st) = nextAddr st"
  "objects (cleanup agent st) = objects st"
  "timers (cleanup agent st) =
     (case room st agent of
        None \<Rightarrow> timers st
      | Some s \<Rightarrow> (case pollingInterval s of None \<Rightarrow> timers st | Some h \<Rightarrow> (timers st)(h := None)))"
  by (simp_all add: cleanup_def Let_def clearInterval_def split: option.splits)

lemma timers_recorded_cleanup:
  assumes inv: "timers_recorded st"
  shows "timers_recorded (cleanup agent st)"
proof (rule timers_recordedI)
  fix h key
  assume t: "timers (cleanup agent st) h = Some key"
  then have t0: "timers st h = Some key"
    by (simp add: cleanup_frame split: option.splits if_splits)
  from timers_recordedD [OF inv t0] obtain a where
    lt: "h < nextHandle st" and a: "roomStates st key = Some a"
    and p: "pollingInterval (objects st a) = Some h" by blast
  from lt show "h < nextHandle (cleanup agent st)" by (simp add: cleanup_frame)
  have "key \<noteq> agent"
  proof
    assume "key = agent"
    with a p have "timers (cleanup agent st) h = None"
      by (simp add: cleanup_frame room_def)
    with t show False by simp
  qed
  with a p show "\<exists>a. roomStates (cleanup agent st) key = Some a \<and>
         pollingInterval (objects (cleanup agent st) a) = Some h"
    by (simp add: cleanup_frame cleanup_fields)
next
  fix key a
  assume "roomStates (cleanup agent st) key = Some a"
  then have "roomStates st key = Some a"
    by (simp add: cleanup_fields split: if_splits)
  with inv show "a < nextAddr (cleanup agent st)"
    by (simp add: cleanup_frame rooms_allocated)
qed

lemma timers_recorded_setActiveChannel:
  assumes inv: "timers_recorded st"
  shows "timers_recorded (snd (setActiveChannel agent channel resp st))"
proof -
  let ?b = "snd (setActiveChannel_begin agent channel st)"
  let ?n = "nextAddr st"
  have tb: "timers ?b h = Some key \<Longrightarrow>
              timers st h = Some key \<and> key \<noteq> agent" for h key
  proof -
    assume t: "timers ?b h = Some key"
    then have t0: "timers st h = Some key"
      by (simp add: setActiveChannel_begin_timers split: option.splits if_splits)
    from timers_recordedD [OF inv t0] obtain a where
      a: "roomStates st key = Some a" and p: "pollingInterval (objects st a) = Some h" by blast
    have "key \<noteq> agent"
    proof
      assume "key = agent"
      with a p have "timers ?b h = None"
        by (simp add: setActiveChannel_begin_timers room_def)
      with t show False by simp
    qed
    with t0 show ?thesis by simp
  qed
  have old: "timers st h = Some key \<Longrightarrow> key \<noteq> agent \<Longrightarrow>
               h < nextHandle st \<and>
               (\<exists>a. a \<noteq> ?n \<and> roomStates ?b key = Some a \<and> pollingInterval (objects ?b a) = Some h)" for h key
  proof -
    assume t0: "timers st h = Some key" and ne: "key \<noteq> agent"
    from timers_recordedD [OF inv t0] obtain a where lt: "h < nextHandle st"
      and a: "roomStates st key = Some a" and p: "pollingInterval (objects st a) = Some h" by blast
    from inv a have "a < ?n" by (rule rooms_allocated)
    with lt a p ne show ?thesis
      by (simp add: setActiveChannel_begin_fields)
  qed
  have both: "timers ?b h = Some key \<Longrightarrow>
               h < nextHandle st \<and>
               (\<exists>a. a \<noteq> ?n \<and> roomStates ?b key = Some a \<and> pollingInterval (objects ?b a) = Some h)" for h key
  proof -
    assume "timers ?b h = Some key"
    from tb [OF this] have "timers st h = Some key" and "key \<noteq> agent" by simp_all
    then show ?thesis by (rule old)
  qed
  have alloc: "roomStates ?b key = Some a \<Longrightarrow> a < Suc ?n" for key a
    using rooms_allocated [OF inv, of key a]
    by (auto simp add: setActiveChannel_begin_fields split: if_splits)
  show ?thesis
  proof (cases resp)
    case (Inl e)
    then have eq: "snd (setActiveChannel agent channel resp st) =
        log_line ''Error fetching channel messages:'' (Some e) ?b"
      by (simp add: setActiveChannel_def split_beta setActiveChannel_resume_failed
          setActiveChannel_begin_fields)
    show ?thesis
      unfolding eq
    proof (rule timers_recordedI)
      fix h key
      assume "timers (log_line ''Error fetching channel messages:'' (Some e) ?b) h = Some key"
      then have t: "timers ?b h = Some key" by (simp add: log_line_def)
      from both [OF t] show "h < nextHandle (log_line ''Error fetching channel messages:'' (Some e) ?b)"
        by (simp add: log_line_def setActiveChannel_begin_fields)
      from both [OF t]
      show "\<exists>a. roomStates (log_line ''Error fetching channel messages:'' (Some e) ?b) key = Some a \<and>
          pollingInterval (objects (log_line ''Error fetching channel messages:'' (Some e) ?b) a) = Some h"
        by (simp add: log_line_def) blast
    next
      fix key a
      assume "roomStates (log_line ''Error fetching channel messages:'' (Some e) ?b) key = Some a"
      then have "roomStates ?b key = Some a" by (simp add: log_line_def)
      from alloc [OF this]
      show "a < nextAddr (log_line ''Error fetching channel messages:'' (Some e) ?b)"
        by (simp add: log_line_def setActiveChannel_begin_fields)
    qed
  next
    case (Inr messages)
    let ?r = "snd (setActiveChannel_resume agent ?n (Inr messages) ?b)"
    from Inr have eq: "snd (setActiveChannel agent channel resp st) = ?r"
      by (simp add: setActiveChannel_def split_beta setActiveChannel_begin_fields)
    have others: "a \<noteq> ?n \<Longrightarrow> pollingInterval (objects ?r a) = pollingInterval (objects ?b a)" for a
      by (cases messages; simp add: setActiveChannel_resume_def Let_def helper_defs)
    show ?thesis
      unfolding eq
    proof (rule timers_recordedI)
      fix h key
      assume t: "timers ?r h = Some key"
      show "h < nextHandle ?r"
      proof (cases "h = nextHandle st")
        case True
        then show ?thesis
          by (simp add: setActiveChannel_resume_fields setActiveChannel_begin_fields)
      next
        case False
        with t have "timers ?b h = Some key"
          by (simp add: setActiveChannel_resume_fields setActiveChannel_begin_fields)
        from both [OF this] show ?thesis
          by (simp add: setActiveChannel_resume_fields setActiveChannel_begin_fields)
      qed
      show "\<exists>a. roomStates ?r key = Some a \<and> pollingInterval (objects ?r a) = Some h"
      proof (cases "h = nextHandle st")
        case True
        with t have "key = agent"
          by (simp add: setActiveChannel_resume_fields setActiveChannel_begin_fields)
        with True show ?thesis
          by (simp add: setActiveChannel_resume_fields setActiveChannel_begin_fields)
      next
        case False
        with t have "timers ?b h = Some key"
          by (simp add: setActiveChannel_resume_fields setActiveChannel_begin_fields)
        from both [OF this] obtain a where "a \<noteq> ?n" "roomStates ?b key = Some a"
          "pollingInterval (objects ?b a) = Some h" by blast
        then show ?thesis
          by (simp add: others setActiveChannel_resume_fields)
      qed
    next
      fix key a
      assume "roomStates ?r key = Some a"
      then have "roomStates ?b key = Some a" by (simp add: setActiveChannel_resume_fields)
      from alloc [OF this] show "a < nextAddr ?r"
        by (cases messages; simp add: setActiveChannel_resume_def Let_def helper_defs
            setActiveChannel_begin_fields)
    qed
  qed
qed

lemma timers_recorded_perform:
  assumes "timers_recorded st"
  shows "timers_recorded (perform u x st)"
proof (cases x)
  case (AddMessageHandler h)
  with assms show ?thesis
    by (simp add: timers_recorded_def addMessageHandler_def)
next
  case (RemoveMessageHandler h)
  with assms show ?thesis
    by (simp add: timers_recorded_def removeMessageHandler_def)
next
  case (SetActiveChannel agent channel resp)
  with assms show ?thesis by (simp add: timers_recorded_setActiveChannel)
next
  case (SendMessage now agent content posted stored)
  with timers_recorded_frame [OF assms sendMessage_frame] show ?thesis by simp
next
  case (Cleanup agent)
  with assms show ?thesis by (simp add: timers_recorded_cleanup)
next
  case (Tick h resp)
  show ?thesis
  proof (cases "timers st h")
    case None
    with Tick assms show ?thesis by simp
  next
    case (Some key)
    with Tick timers_recorded_frame [OF assms pollMessages_frame] show ?thesis by simp
  qed
qed

lemma timers_recorded_perform_all:
  "timers_recorded st \<Longrightarrow> timers_recorded (perform_all u xs st)"
  by (induction xs arbitrary: st) (simp_all add: timers_recorded_perform)

lemma distinct_all_equal:
  assumes "distinct xs" and "\<And>x y. x \<in> set xs \<Longrightarrow> y \<in> set xs \<Longrightarrow> x = y"
  shows "length xs \<le> 1"
proof (cases xs)
  case Nil
  then show ?thesis by simp
next
  case (Cons x ys)
  show ?thesis
  proof (cases ys)
    case Nil
    with Cons show ?thesis by simp
  next
    case (Cons y zs)
    with \<open>xs = x # ys\<close> assms(2) [of x y] have "x = y" by simp
    with Cons \<open>xs = x # ys\<close> assms(1) show ?thesis by simp
  qed
qed

lemma timers_recorded_one_timer:
  assumes "timers_recorded st"
  shows "length (timers_of st key) \<le> 1"
proof (rule distinct_all_equal)
  show "distinct (timers_of st key)" by (simp add: timers_of_def)
next
  fix x y
  assume "x \<in> set (timers_of st key)" and "y \<in> set (timers_of st key)"
  then have x: "timers st x = Some key" and y: "timers st y = Some key"
    by (simp_all add: timers_of_def)
  from timers_recordedD(2) [OF assms x] timers_recordedD(2) [OF assms y]
  show "x = y" by auto
qed

lemma timers_of_complete:
  assumes "timers_recorded st" and "timers st h = Some key"
  shows "h \<in> set (timers_of st key)"
  using assms timers_recordedD(1) [OF assms] by (simp add: timers_of_def)

lemma one_timer_without_overlap:
  "length (timers_of (perform_all u xs (constructor runtime w)) key) \<le> 1"
  by (rule timers_recorded_one_timer, rule timers_recorded_perform_all,
      rule timers_recorded_constructor)

text \<open>
  Claim C6, evaluated. \<open>setActiveChannel\<close> is called twice for the same agent, the second
  time while the first call waits for its seed request. The second call finds a room state
  without a timer and cancels nothing; each call then installs a timer on the room state it
  created. Two timers poll the agent's key, the first of them recorded nowhere in the map,
  and \<open>cleanup\<close> cancels only the second.
\<close>

theorem overlapping_switches_two_timers:
  "timers_of ex_both_settled ''agent-1'' = [2, 3] \<and>
   map_option pollingInterval (room ex_both_settled ''agent-1'') = Some (Some 3) \<and>
   timers_of (cleanup ''agent-1'' ex_both_settled) ''agent-1'' = [2]"
  by (simp add: method_defs helper_defs ex_defs upt_rec)

end
